theory Spec2Isabelle
  imports Main
begin

section \<open>Strings and characters\<close>

text \<open>
  The program is \<^verbatim>\<open>scripts/convert_solutions_latex_to_pretext.py\<close>. A Python \<^verbatim>\<open>str\<close> is
  modelled as a \<^typ>\<open>string\<close> whose characters are the code points 0 to 255, so the one
  character of the source outside ASCII, the currency sign U+00A4 of the ampersand
  placeholder, is a single character here as it is in Python. Texts with code points above
  255 are outside the model.
\<close>

definition bs :: char where
  "bs = CHR 0x5C"

definition nl :: char where
  "nl = CHR 0x0A"

definition currency_sign :: char where
  "currency_sign = CHR 0xA4"

text \<open>
  Python's whitespace (\<^verbatim>\<open>\s\<close> of a \<^verbatim>\<open>str\<close> pattern and \<^verbatim>\<open>str.strip()\<close>) below
  code point 256: tab, line feed, vertical tab, form feed, carriage return, the four
  separators 0x1C to 0x1F, the space, NEL (0x85) and the no-break space (0xA0).
  The decimal digits (\<^verbatim>\<open>\d\<close>) below code point 256 are \<^verbatim>\<open>0\<close> to \<^verbatim>\<open>9\<close>.
\<close>

definition is_space :: "char \<Rightarrow> bool" where
  "is_space c = (c \<in> set [CHR 0x09, CHR 0x0A, CHR 0x0B, CHR 0x0C, CHR 0x0D,
                           CHR 0x1C, CHR 0x1D, CHR 0x1E, CHR 0x1F, CHR 0x20,
                           CHR 0x85, CHR 0xA0])"

definition is_digit :: "char \<Rightarrow> bool" where
  "is_digit c = (c \<in> set ''0123456789'')"

definition is_lower_az :: "char \<Rightarrow> bool" where
  "is_lower_az c = (c \<in> set ''abcdefghijklmnopqrstuvwxyz'')"

definition is_upper_az :: "char \<Rightarrow> bool" where
  "is_upper_az c = (c \<in> set ''ABCDEFGHIJKLMNOPQRSTUVWXYZ'')"

definition startswith :: "string \<Rightarrow> string \<Rightarrow> bool" where
  "startswith s p = (take (length p) s = p)"

definition endswith :: "string \<Rightarrow> string \<Rightarrow> bool" where
  "endswith s p = (drop (length s - length p) s = p \<and> length p \<le> length s)"

definition strip :: "string \<Rightarrow> string" where
  "strip s = rev (dropWhile is_space (rev (dropWhile is_space s)))"

text \<open>
  \<^verbatim>\<open>str.replace(old, new)\<close>: every occurrence of \<open>old\<close>, left to right, without
  overlap. The program only calls it with a non-empty \<open>old\<close>.
\<close>

fun str_replace :: "string \<Rightarrow> string \<Rightarrow> string \<Rightarrow> string" where
  "str_replace old new [] = []"
| "str_replace old new (c # s) =
     (if old \<noteq> [] \<and> startswith (c # s) old
      then new @ str_replace old new (drop (length old - 1) s)
      else c # str_replace old new s)"

section \<open>Regular expressions\<close>

text \<open>
  The patterns of the program use only a small fragment of Python's \<^verbatim>\<open>re\<close>: literal
  characters, character classes, a greedy or lazy repetition of one character class, one
  capture group, a negative lookahead over literal words, the end anchor, and an
  alternation at the top of a pattern. A pattern is a list of alternatives, each a list of
  items, and the matcher is a backtracking matcher with Python's priorities: a greedy
  repetition tries the longest run first, a lazy one the shortest, alternatives are tried
  in order.
\<close>

datatype atom =
    Ch char               \<comment> \<open>a literal character\<close>
  | NotIn "char list"     \<comment> \<open>\<^verbatim>\<open>[^...]\<close>\<close>
  | AnyChar               \<comment> \<open>\<^verbatim>\<open>.\<close> under \<^verbatim>\<open>re.DOTALL\<close>\<close>
  | NoNewline             \<comment> \<open>\<^verbatim>\<open>.\<close> without the flag\<close>
  | Space                 \<comment> \<open>\<^verbatim>\<open>\s\<close>\<close>
  | Digit                 \<comment> \<open>\<^verbatim>\<open>\d\<close>\<close>
  | Lower                 \<comment> \<open>\<^verbatim>\<open>[a-z]\<close>\<close>

datatype item =
    One atom              \<comment> \<open>one character\<close>
  | Star atom             \<comment> \<open>\<^verbatim>\<open>a*\<close>, greedy\<close>
  | Plus atom             \<comment> \<open>\<^verbatim>\<open>a+\<close>, greedy\<close>
  | Lazy atom             \<comment> \<open>\<^verbatim>\<open>a*?\<close>\<close>
  | GOpen                 \<comment> \<open>the capture group opens\<close>
  | GClose                \<comment> \<open>the capture group closes\<close>
  | NotAhead "string list" \<comment> \<open>\<^verbatim>\<open>(?!w1|w2|...)\<close> over literal words\<close>
  | AtEnd                 \<comment> \<open>\<^verbatim>\<open>$\<close>: the end, or just before a final line feed\<close>

type_synonym regex = "item list list"

fun atom_ok :: "atom \<Rightarrow> char \<Rightarrow> bool" where
  "atom_ok (Ch x) c = (c = x)"
| "atom_ok (NotIn xs) c = (c \<notin> set xs)"
| "atom_ok AnyChar c = True"
| "atom_ok NoNewline c = (c \<noteq> nl)"
| "atom_ok Space c = is_space c"
| "atom_ok Digit c = is_digit c"
| "atom_ok Lower c = is_lower_az c"

definition lit :: "string \<Rightarrow> item list" where
  "lit s = map (\<lambda>c. One (Ch c)) s"

text \<open>
  A match is the text of the capture group and the number of characters matched. The
  flag says whether the matcher is inside the group: the characters consumed there are
  the group's text.
\<close>

definition took :: "bool \<Rightarrow> char \<Rightarrow> (string \<times> nat) option \<Rightarrow> (string \<times> nat) option" where
  "took g c r = (case r of None \<Rightarrow> None
                 | Some (grp, n) \<Rightarrow> Some (if g then c # grp else grp, Suc n))"

fun mt :: "item list \<Rightarrow> string \<Rightarrow> bool \<Rightarrow> (string \<times> nat) option" where
  "mt [] s g = Some ([], 0)"
| "mt (GOpen # r) s g = mt r s True"
| "mt (GClose # r) s g = mt r s False"
| "mt (NotAhead ws # r) s g = (if list_ex (startswith s) ws then None else mt r s g)"
| "mt (AtEnd # r) s g = (if s = [] \<or> s = [nl] then mt r s g else None)"
| "mt (One a # r) [] g = None"
| "mt (One a # r) (c # s) g = (if atom_ok a c then took g c (mt r s g) else None)"
| "mt (Plus a # r) [] g = None"
| "mt (Plus a # r) (c # s) g = (if atom_ok a c then took g c (mt (Star a # r) s g) else None)"
| "mt (Star a # r) [] g = mt r [] g"
| "mt (Star a # r) (c # s) g =
     (if atom_ok a c then
        (case took g c (mt (Star a # r) s g) of
           Some m \<Rightarrow> Some m
         | None \<Rightarrow> mt r (c # s) g)
      else mt r (c # s) g)"
| "mt (Lazy a # r) [] g = mt r [] g"
| "mt (Lazy a # r) (c # s) g =
     (case mt r (c # s) g of
        Some m \<Rightarrow> Some m
      | None \<Rightarrow> (if atom_ok a c then took g c (mt (Lazy a # r) s g) else None))"

fun match_at :: "regex \<Rightarrow> string \<Rightarrow> (string \<times> nat) option" where
  "match_at [] s = None"
| "match_at (p # ps) s =
     (case mt p s False of Some m \<Rightarrow> Some m | None \<Rightarrow> match_at ps s)"

text \<open>
  \<^verbatim>\<open>re.search\<close>: the leftmost match, as (start, end, group 1). No pattern of the
  program matches the empty string; the functions below that walk over all matches
  (\<^verbatim>\<open>re.sub\<close>, \<^verbatim>\<open>re.split\<close>, \<^verbatim>\<open>re.finditer\<close>) step over an empty match as over no
  match.
\<close>

fun re_search :: "regex \<Rightarrow> string \<Rightarrow> (nat \<times> nat \<times> string) option" where
  "re_search p [] = (case match_at p [] of Some (grp, n) \<Rightarrow> Some (0, n, grp) | None \<Rightarrow> None)"
| "re_search p (c # s) =
     (case match_at p (c # s) of
        Some (grp, n) \<Rightarrow> Some (0, n, grp)
      | None \<Rightarrow> (case re_search p s of
                   Some (st, en, grp) \<Rightarrow> Some (Suc st, Suc en, grp)
                 | None \<Rightarrow> None))"

fun re_sub :: "regex \<Rightarrow> (string \<Rightarrow> string) \<Rightarrow> string \<Rightarrow> string" where
  "re_sub p repl [] = []"
| "re_sub p repl (c # s) =
     (case match_at p (c # s) of
        Some (grp, Suc n) \<Rightarrow> repl grp @ re_sub p repl (drop n s)
      | _ \<Rightarrow> c # re_sub p repl s)"

fun re_split_from :: "regex \<Rightarrow> string \<Rightarrow> string \<Rightarrow> string list" where
  "re_split_from p acc [] = [acc]"
| "re_split_from p acc (c # s) =
     (case match_at p (c # s) of
        Some (grp, Suc n) \<Rightarrow> acc # grp # re_split_from p [] (drop n s)
      | _ \<Rightarrow> re_split_from p (acc @ [c]) s)"

definition re_split :: "regex \<Rightarrow> string \<Rightarrow> string list" where
  "re_split p s = re_split_from p [] s"

fun re_finditer_from :: "regex \<Rightarrow> nat \<Rightarrow> string \<Rightarrow> (nat \<times> nat \<times> string) list" where
  "re_finditer_from p off [] = []"
| "re_finditer_from p off (c # s) =
     (case match_at p (c # s) of
        Some (grp, Suc n) \<Rightarrow>
          (off, off + Suc n, grp) # re_finditer_from p (off + Suc n) (drop n s)
      | _ \<Rightarrow> re_finditer_from p (Suc off) s)"

definition re_finditer :: "regex \<Rightarrow> string \<Rightarrow> (nat \<times> nat \<times> string) list" where
  "re_finditer p s = re_finditer_from p 0 s"

section \<open>The brace matcher\<close>

text \<open>
  \<^verbatim>\<open>extract_braced_content(text, start_pos)\<close>. The loop state is the index \<open>i\<close>, the
  depth (a Python int) and the list of characters collected so far; the loop returns the
  joined result and the position it stopped at.
\<close>

function ebc_loop :: "string \<Rightarrow> nat \<Rightarrow> int \<Rightarrow> string \<Rightarrow> string \<times> nat" where
  "ebc_loop text i depth result =
     (if i < length text then
        (if text ! i = CHR ''{'' then
           ebc_loop text (i + 1) (depth + 1)
             (if depth + 1 > 1 then result @ [text ! i] else result)
         else if text ! i = CHR ''}'' then
           (if depth - 1 = 0 then (result, i + 1)
            else ebc_loop text (i + 1) (depth - 1) (result @ [text ! i]))
         else
           ebc_loop text (i + 1) depth
             (if depth > 0 then result @ [text ! i] else result))
      else (result, i))"
  by pat_completeness auto
termination
  by (relation "measure (\<lambda>(text, i, depth, result). length text - i)") auto

declare ebc_loop.simps [simp del]

definition extract_braced_content :: "string \<Rightarrow> nat \<Rightarrow> string option \<times> nat" where
  "extract_braced_content text start_pos =
     (if start_pos \<ge> length text \<or> text ! start_pos \<noteq> CHR ''{'' then (None, start_pos)
      else (case ebc_loop text start_pos 0 [] of (r, i) \<Rightarrow> (Some r, i)))"

text \<open>
  The text between a brace and its partner: \<open>balanced_from d s\<close> holds when no closing
  brace of \<open>s\<close> is without an opening one (starting \<open>d\<close> levels deep) and every level is
  closed at the end.
\<close>

fun balanced_from :: "nat \<Rightarrow> string \<Rightarrow> bool" where
  "balanced_from d [] = (d = 0)"
| "balanced_from d (c # s) =
     (if c = CHR ''{'' then balanced_from (Suc d) s
      else if c = CHR ''}'' then 0 < d \<and> balanced_from (d - 1) s
      else balanced_from d s)"

definition balanced :: "string \<Rightarrow> bool" where
  "balanced s = balanced_from 0 s"

text \<open>
  \<open>closes d s\<close>: scanning \<open>s\<close> from depth \<open>d\<close>, some closing brace brings the depth
  to 0, which is where the loop returns early.
\<close>

fun closes :: "int \<Rightarrow> string \<Rightarrow> bool" where
  "closes d [] = False"
| "closes d (c # s) =
     (if c = CHR ''{'' then closes (d + 1) s
      else if c = CHR ''}'' then d - 1 = 0 \<or> closes (d - 1) s
      else closes d s)"

section \<open>The markup translator\<close>

text \<open>
  The patterns of \<^verbatim>\<open>convert_latex_to_pretext\<close>, in the order of the source. Each is
  preceded by the Python pattern it embeds.
\<close>

text \<open>\<^verbatim>\<open>\\FigureFullPath\[([^\]]+)\]\{[^}]+\}\{[^}]+\}\<close>\<close>

definition re_figure_full_path :: regex where
  "re_figure_full_path =
     [lit (bs # ''FigureFullPath['') @ [GOpen, Plus (NotIn '']''), GClose] @ lit '']{'' @
      [Plus (NotIn ''}'')] @ lit ''}{'' @ [Plus (NotIn ''}'')] @ lit ''}'']"

text \<open>\<^verbatim>\<open>\\Figure\[[^\]]+\]\{[^}]+\}\<close>\<close>

definition re_figure :: regex where
  "re_figure =
     [lit (bs # ''Figure['') @ [Plus (NotIn '']'')] @ lit '']{'' @
      [Plus (NotIn ''}'')] @ lit ''}'']"

text \<open>\<^verbatim>\<open>\\begin\{align\*\}(.*?)\\end\{align\*\}\<close> with \<^verbatim>\<open>re.DOTALL\<close>\<close>

definition re_align :: regex where
  "re_align =
     [lit (bs # ''begin{align*}'') @ [GOpen, Lazy AnyChar, GClose] @
      lit (bs # ''end{align*}'')]"

text \<open>\<^verbatim>\<open>\{\\footnotesize\\begin\{align\*\}(.*?)\\end\{align\*\}\}\<close> with \<^verbatim>\<open>re.DOTALL\<close>\<close>

definition re_align_footnotesize :: regex where
  "re_align_footnotesize =
     [lit (CHR ''{'' # bs # ''footnotesize'') @ lit (bs # ''begin{align*}'') @
      [GOpen, Lazy AnyChar, GClose] @ lit (bs # ''end{align*}}'')]"

text \<open>\<^verbatim>\<open>\\\\\s*\.\<close>, \<^verbatim>\<open>\\\\\s*\n\<close>, \<^verbatim>\<open>\\\\\<close> and \<^verbatim>\<open>\s+\<close>\<close>

definition re_break_period :: regex where
  "re_break_period = [lit [bs, bs] @ [Star Space, One (Ch CHR ''.'')]]"

definition re_break_newline :: regex where
  "re_break_newline = [lit [bs, bs] @ [Star Space, One (Ch nl)]]"

definition re_break :: regex where
  "re_break = [lit [bs, bs]]"

definition re_spaces :: regex where
  "re_spaces = [[Plus Space]]"

text \<open>\<^verbatim>\<open>\\emph\{([^}]+)\}\<close> and \<^verbatim>\<open>\\textbf\{([^}]+)\}\<close>\<close>

definition re_emph :: regex where
  "re_emph = [lit (bs # ''emph{'') @ [GOpen, Plus (NotIn ''}''), GClose] @ lit ''}'']"

definition re_textbf :: regex where
  "re_textbf = [lit (bs # ''textbf{'') @ [GOpen, Plus (NotIn ''}''), GClose] @ lit ''}'']"

text \<open>
  Two backquotes, a group of characters other than the double quote and the backquote,
  and two single quotes (the first pattern) or one double quote (the second).
\<close>

definition re_quote_single :: regex where
  "re_quote_single =
     [lit ''``'' @ [GOpen, Plus (NotIn [CHR 0x22, CHR 0x60]), GClose] @ lit [CHR 0x27, CHR 0x27]]"

definition re_quote_double :: regex where
  "re_quote_double =
     [lit ''``'' @ [GOpen, Plus (NotIn [CHR 0x22, CHR 0x60]), GClose] @ lit [CHR 0x22]]"

text \<open>\<^verbatim>\<open>\[Figure: ([^\]]+)\]\<close> and \<^verbatim>\<open>\[Math: ([^\]]+)\]\<close>\<close>

definition re_figure_block :: regex where
  "re_figure_block = [lit ''[Figure: '' @ [GOpen, Plus (NotIn '']''), GClose] @ lit '']'']"

definition re_math_block :: regex where
  "re_math_block = [lit ''[Math: '' @ [GOpen, Plus (NotIn '']''), GClose] @ lit '']'']"

text \<open>\<^verbatim>\<open>\$([^\$]+)\$\<close>\<close>

definition re_inline_math :: regex where
  "re_inline_math = [lit ''$'' @ [GOpen, Plus (NotIn ''$''), GClose] @ lit ''$'']"

text \<open>
  \<^verbatim>\<open>(<m>.*?</m>|<em>.*?</em>|<alert>.*?</alert>|<q>.*?</q>|\[Figure:[^\]]+\]|\[Math:[^\]]+\])\<close>:
  the group is the whole match.
\<close>

definition re_protected :: regex where
  "re_protected =
     [GOpen # lit ''<m>'' @ [Lazy NoNewline] @ lit ''</m>'' @ [GClose],
      GOpen # lit ''<em>'' @ [Lazy NoNewline] @ lit ''</em>'' @ [GClose],
      GOpen # lit ''<alert>'' @ [Lazy NoNewline] @ lit ''</alert>'' @ [GClose],
      GOpen # lit ''<q>'' @ [Lazy NoNewline] @ lit ''</q>'' @ [GClose],
      GOpen # lit ''[Figure:'' @ [Plus (NotIn '']'')] @ lit '']'' @ [GClose],
      GOpen # lit ''[Math:'' @ [Plus (NotIn '']'')] @ lit '']'' @ [GClose]]"

text \<open>\<^verbatim>\<open>&(?!amp;|lt;|gt;|quot;|apos;)\<close>\<close>

definition re_bare_ampersand :: regex where
  "re_bare_ampersand =
     [[One (Ch CHR ''&''), NotAhead [''amp;'', ''lt;'', ''gt;'', ''quot;'', ''apos;'']]]"

definition ampersand_placeholder :: string where
  "ampersand_placeholder = currency_sign # ''AMPERSAND'' @ [currency_sign]"

definition protect_math_env :: "string \<Rightarrow> string" where
  "protect_math_env math_content =
     ''[Math: '' @ str_replace ''&'' ampersand_placeholder math_content @ '']''"

definition replace_emph :: "string \<Rightarrow> string" where
  "replace_emph inner = ''<em>'' @ inner @ ''</em>''"

definition escape_figure_quotes :: "string \<Rightarrow> string" where
  "escape_figure_quotes text = ''[Figure: '' @ str_replace [CHR 0x22] ''&quot;'' text @ '']''"

definition escape_math_markup :: "string \<Rightarrow> string" where
  "escape_math_markup text =
     ''[Math: '' @
       str_replace ampersand_placeholder ''&amp;''
         (str_replace ''>'' ''&gt;'' (str_replace ''<'' ''&lt;'' text)) @ '']''"

definition replace_math :: "string \<Rightarrow> string" where
  "replace_math math_content =
     ''<m>'' @
       str_replace ''>'' (bs # ''gt'') (str_replace ''<'' (bs # ''lt'') math_content) @
     ''</m>''"

text \<open>
  The last pass: the text is split at the protected spans, and a bare ampersand is
  escaped in every part that starts neither with \<^verbatim>\<open><\<close> nor with \<^verbatim>\<open>[\<close>.
\<close>

definition escape_part :: "string \<Rightarrow> string" where
  "escape_part part =
     (if \<not> startswith part ''<'' \<and> \<not> startswith part ''[''
      then re_sub re_bare_ampersand (\<lambda>_. ''&amp;'') part
      else part)"

definition escape_ampersands :: "string \<Rightarrow> string" where
  "escape_ampersands content = concat (map escape_part (re_split re_protected content))"

definition normalize_whitespace :: "string \<Rightarrow> string" where
  "normalize_whitespace content = strip (re_sub re_spaces (\<lambda>_. '' '') content)"

definition convert_latex_to_pretext :: "string \<Rightarrow> string" where
  "convert_latex_to_pretext latex_content =
     (let content = latex_content;
          content = re_sub re_figure_full_path (\<lambda>g. ''[Figure: '' @ g @ '']'') content;
          content = re_sub re_figure (\<lambda>_. ''[Figure]'') content;
          content = re_sub re_align protect_math_env content;
          content = re_sub re_align_footnotesize protect_math_env content;
          content = re_sub re_break_period (\<lambda>_. ''.'') content;
          content = re_sub re_break_newline (\<lambda>_. '' '') content;
          content = re_sub re_break (\<lambda>_. []) content;
          content = normalize_whitespace content;
          content = str_replace ''~'' '' '' content;
          content = re_sub re_emph replace_emph content;
          content = re_sub re_textbf (\<lambda>g. ''<alert>'' @ g @ ''</alert>'') content;
          content = re_sub re_quote_single (\<lambda>g. ''<q>'' @ g @ ''</q>'') content;
          content = re_sub re_quote_double (\<lambda>g. ''<q>'' @ g @ ''</q>'') content;
          content = re_sub re_figure_block escape_figure_quotes content;
          content = re_sub re_math_block escape_math_markup content;
          content = str_replace (bs # ''rightarrow'') (bs # ''to'') content;
          content = re_sub re_inline_math replace_math content;
          content = escape_ampersands content
      in normalize_whitespace content)"

section \<open>The extractor\<close>

text \<open>
  The patterns of \<^verbatim>\<open>parse_solutions\<close>: the chapter marker
  \<^verbatim>\<open>\\eocesolch\{([^}]+)\}\<close>, the exercise-number annotation \<^verbatim>\<open>%\s*(\d+)\s*\n\<close> and the
  start of a solution marker \<^verbatim>\<open>\\eocesol\s*\{\<close>.
\<close>

definition re_chapter :: regex where
  "re_chapter = [lit (bs # ''eocesolch{'') @ [GOpen, Plus (NotIn ''}''), GClose] @ lit ''}'']"

definition re_annotation :: regex where
  "re_annotation =
     [[One (Ch CHR ''%''), Star Space, GOpen, Plus Digit, GClose, Star Space, One (Ch nl)]]"

definition re_eocesol :: regex where
  "re_eocesol = [lit (bs # ''eocesol'') @ [Star Space, One (Ch CHR ''{'')]]"

type_synonym solution = "string \<times> string"

text \<open>
  One iteration of the loop over a chapter's text, entered with \<open>pos < len(chapter_content)\<close>:
  \<open>None\<close> is the \<^verbatim>\<open>break\<close>, otherwise the new position and the new list of solutions.
  The slice \<open>chapter_content[pos:]\<close> is \<open>drop pos chapter_content\<close>. The truth
  test \<^verbatim>\<open>if solution_text:\<close> fails on \<^verbatim>\<open>None\<close> and on the empty string.
\<close>

definition scan_step :: "string \<Rightarrow> nat \<Rightarrow> solution list \<Rightarrow> (nat \<times> solution list) option" where
  "scan_step chapter_content pos solutions =
     (case re_search re_annotation (drop pos chapter_content) of
        None \<Rightarrow> None
      | Some (comment_start, comment_match_end, exercise_num) \<Rightarrow>
          (let comment_end = pos + comment_match_end in
           case re_search re_eocesol (drop comment_end chapter_content) of
             None \<Rightarrow> Some (comment_end, solutions)
           | Some (eocesol_start, eocesol_match_end, _) \<Rightarrow>
               (let brace_start = comment_end + eocesol_match_end - 1;
                    solution_text = fst (extract_braced_content chapter_content brace_start)
                in Some (comment_end + eocesol_match_end,
                         (case solution_text of
                            None \<Rightarrow> solutions
                          | Some t \<Rightarrow> if t \<noteq> [] then solutions @ [(exercise_num, t)]
                                      else solutions)))))"

subsection \<open>Every match of a pattern that starts with a character is non-empty\<close>

lemma took_Some:
  "took g c r = Some (grp, n) \<Longrightarrow> 0 < n"
  by (auto simp: took_def split: option.splits)

lemma mt_One_positive:
  "mt (One a # r) s g = Some (grp, n) \<Longrightarrow> 0 < n"
  by (cases s) (auto dest: took_Some split: if_splits)

lemma re_search_end:
  "re_search p s = Some (st, en, grp) \<Longrightarrow> match_at p (drop st s) = Some (grp, en - st) \<and> st \<le> en"
proof (induction s arbitrary: st en)
  case Nil
  then show ?case
    by (auto split: option.splits)
next
  case (Cons c s)
  show ?case
  proof (cases "match_at p (c # s)")
    case (Some m)
    with Cons.prems show ?thesis
      by (cases m) auto
  next
    case None
    with Cons.prems obtain st' en' where r: "re_search p s = Some (st', en', grp)"
      and st: "st = Suc st'" and en: "en = Suc en'"
      by (auto split: option.splits)
    from Cons.IH [OF r] st en show ?thesis
      by simp
  qed
qed

lemma re_annotation_positive:
  "re_search re_annotation s = Some (st, en, grp) \<Longrightarrow> 0 < en"
proof -
  assume "re_search re_annotation s = Some (st, en, grp)"
  then have m: "match_at re_annotation (drop st s) = Some (grp, en - st)"
    by (simp add: re_search_end)
  then have "0 < en - st"
    by (auto simp: re_annotation_def dest: mt_One_positive split: option.splits)
  then show ?thesis
    by simp
qed

lemma scan_step_progress:
  assumes "scan_step chapter_content pos solutions = Some (pos', solutions')"
  shows "pos < pos'"
proof -
  from assms obtain st en num where
    a: "re_search re_annotation (drop pos chapter_content) = Some (st, en, num)"
    by (auto simp: scan_step_def split: option.splits)
  then have en: "0 < en"
    by (rule re_annotation_positive)
  from assms a have "pos + en \<le> pos'"
    by (auto simp: scan_step_def Let_def split: option.splits)
  with en show ?thesis
    by simp
qed

subsection \<open>The loop over a chapter, and the chapters of a text\<close>

function scan :: "string \<Rightarrow> nat \<Rightarrow> solution list \<Rightarrow> solution list" where
  "scan chapter_content pos solutions =
     (if pos < length chapter_content then
        (case scan_step chapter_content pos solutions of
           None \<Rightarrow> solutions
         | Some (pos', solutions') \<Rightarrow> scan chapter_content pos' solutions')
      else solutions)"
  by pat_completeness auto
termination
proof (relation "measure (\<lambda>(chapter_content, pos, solutions). length chapter_content - pos)")
  show "wf (measure (\<lambda>(chapter_content, pos, solutions). length chapter_content - pos))"
    by simp
next
  fix chapter_content :: string and pos :: nat and solutions x2 :: "solution list"
    and x1 :: nat and p :: "nat \<times> solution list"
  assume "pos < length chapter_content"
     and "scan_step chapter_content pos solutions = Some p" and "(x1, x2) = p"
  then have "pos < x1" and "pos < length chapter_content"
    using scan_step_progress [of chapter_content pos solutions x1 x2] by auto
  then show "((chapter_content, x1, x2), (chapter_content, pos, solutions))
             \<in> measure (\<lambda>(chapter_content, pos, solutions). length chapter_content - pos)"
    by auto
qed

declare scan.simps [simp del]

record book_chapter =
  ch_name :: string
  ch_solutions :: "solution list"

text \<open>
  \<^verbatim>\<open>parse_solutions\<close> on the text it has read: one chapter per match of the chapter
  marker, its text running from the end of the marker to the start of the next one (or to
  the end of the text).
\<close>

definition parse_chapters :: "string \<Rightarrow> book_chapter list" where
  "parse_chapters content =
     (let chapter_matches = re_finditer re_chapter content in
      map (\<lambda>i.
             (case chapter_matches ! i of (match_start, match_end, chapter_name) \<Rightarrow>
                (let start_pos = match_end;
                     end_pos = (if i + 1 < length chapter_matches
                                then fst (chapter_matches ! (i + 1))
                                else length content);
                     chapter_content = take (end_pos - start_pos) (drop start_pos content)
                 in \<lparr>ch_name = chapter_name,
                     ch_solutions = scan chapter_content 0 []\<rparr>)))
          [0..<length chapter_matches])"

section \<open>The assembler\<close>

text \<open>\<^verbatim>\<open>sep.join(lines)\<close>\<close>

fun join :: "string \<Rightarrow> string list \<Rightarrow> string" where
  "join sep [] = []"
| "join sep [x] = x"
| "join sep (x # y # ys) = x @ sep @ join sep (y # ys)"

text \<open>
  The pattern \<^verbatim>\<open>\(([a-z])\)\s*\<close> that splits a solution into its parts, and
  \<^verbatim>\<open>\.\s*$\<close>, the period at the end of a part.
\<close>

definition re_part_marker :: regex where
  "re_part_marker =
     [[One (Ch CHR ''(''), GOpen, One Lower, GClose, One (Ch CHR '')''), Star Space]]"

definition re_trailing_period :: regex where
  "re_trailing_period = [[One (Ch CHR ''.''), Star Space, AtEnd]]"

text \<open>
  The loop over the parts of a multi-part solution: \<open>parts[i]\<close> is a letter and
  \<open>parts[i + 1]\<close> its text; a letter without a text is skipped.
\<close>

function parts_loop :: "string list \<Rightarrow> nat \<Rightarrow> string list \<Rightarrow> string list" where
  "parts_loop parts i lines =
     (if i < length parts then
        (if i + 1 < length parts then
           (let text = strip (parts ! (i + 1));
                text = re_sub re_trailing_period (\<lambda>_. []) text;
                converted_text = convert_latex_to_pretext text;
                converted_text = (if \<not> endswith converted_text ''.''
                                  then converted_text @ ''.'' else converted_text)
            in parts_loop parts (i + 2)
                 (lines @ [''          <li>'' @ converted_text @ ''</li>'']))
         else parts_loop parts (i + 1) lines)
      else lines)"
  by pat_completeness auto
termination
  by (relation "measure (\<lambda>(parts, i, lines). length parts - i)") auto

declare parts_loop.simps [simp del]

definition create_pretext_solution :: "string \<Rightarrow> string \<Rightarrow> string" where
  "create_pretext_solution exercise_num solution_text =
     (let parts = re_split re_part_marker solution_text in
      if length parts > 1 \<and> strip (parts ! 0) = [] then
        join [nl]
          (parts_loop parts 1
             [''    <solution>'',
              ''      <title>Exercise '' @ exercise_num @ ''</title>'',
              ''      <p>'',
              ''        <ol marker=\"(a)\">''] @
           [''        </ol>'',
            ''      </p>'',
            ''    </solution>''])
      else
        join [nl]
          [''    <solution>'',
           ''      <title>Exercise '' @ exercise_num @ ''</title>'',
           ''      <p>'',
           ''        '' @ convert_latex_to_pretext solution_text,
           ''      </p>'',
           ''    </solution>''])"

text \<open>
  \<^verbatim>\<open>str.title()\<close> on ASCII letters: a letter that follows a letter is lowered, any other
  letter is raised. Letters outside ASCII are left as they are (the names of the table
  below are ASCII).
\<close>

definition to_upper :: "char \<Rightarrow> char" where
  "to_upper c =
     (case map_of (zip ''abcdefghijklmnopqrstuvwxyz'' ''ABCDEFGHIJKLMNOPQRSTUVWXYZ'') c of
        Some u \<Rightarrow> u | None \<Rightarrow> c)"

definition to_lower :: "char \<Rightarrow> char" where
  "to_lower c =
     (case map_of (zip ''ABCDEFGHIJKLMNOPQRSTUVWXYZ'' ''abcdefghijklmnopqrstuvwxyz'') c of
        Some l \<Rightarrow> l | None \<Rightarrow> c)"

fun title_from :: "bool \<Rightarrow> string \<Rightarrow> string" where
  "title_from previous_is_cased [] = []"
| "title_from previous_is_cased (c # s) =
     (if previous_is_cased then to_lower c else to_upper c) #
       title_from (is_lower_az c \<or> is_upper_az c) s"

definition title :: "string \<Rightarrow> string" where
  "title s = title_from False s"

definition chapter_ids :: "(string \<times> string) list" where
  "chapter_ids =
     [(''Introduction to data'', ''ch01''),
      (''Summarizing data'', ''ch02''),
      (''Probability'', ''ch03''),
      (''Distributions of random variables'', ''ch04''),
      (''Foundations for inference'', ''ch05''),
      (''Inference for categorical data'', ''ch06''),
      (''Inference for numerical data'', ''ch07''),
      (''Introduction to linear regression'', ''ch08''),
      (''Multiple and logistic regression'', ''ch09'')]"

definition chapter_id :: "string \<Rightarrow> string" where
  "chapter_id name = (case map_of chapter_ids name of Some i \<Rightarrow> i | None \<Rightarrow> ''chXX'')"

definition solution_lines :: "solution \<Rightarrow> string list" where
  "solution_lines sol = [create_pretext_solution (fst sol) (snd sol), []]"

definition chapter_lines :: "book_chapter \<Rightarrow> string list" where
  "chapter_lines chapter =
     [''  <section xml:id=\"solutions-'' @ chapter_id (ch_name chapter) @ ''\">'',
      ''    <title>'' @ title (ch_name chapter) @ ''</title>'',
      []] @
     concat (map solution_lines (ch_solutions chapter)) @
     [''  </section>'',
      []]"

definition header_lines :: "string list" where
  "header_lines =
     [''<?xml version=\"1.0\" encoding=\"UTF-8\" ?>'',
      [],
      ''<appendix xmlns:xi=\"http://www.w3.org/2001/XInclude\" xml:id=\"appendix-solutions\">'',
      ''  <title>Exercise Solutions</title>'',
      [],
      ''  <introduction>'',
      ''    <p>'',
      ''      This appendix contains solutions to selected odd-numbered exercises from each chapter.'',
      ''      These solutions are provided to help you check your work and understand the problem-solving process.'',
      ''    </p>'',
      ''  </introduction>'',
      []]"

text \<open>The text that \<^verbatim>\<open>generate_pretext_file\<close> writes.\<close>

definition document :: "book_chapter list \<Rightarrow> string" where
  "document chapters =
     join [nl] (header_lines @ concat (map chapter_lines chapters) @ [''</appendix>''])"

section \<open>Files and the run\<close>












section \<open>Notions used in the statements\<close>

text \<open>
  A chapter text in the expected form is a sequence of blocks. A block is some text
  without a percent sign, the annotation (a percent sign, whitespace, the digits of the
  exercise number, whitespace and a line feed), immediately followed by the solution marker
  (\<^verbatim>\<open>\eocesol\<close>, whitespace and the braced solution text). The solution text is balanced
  and holds no percent sign.
\<close>

record solution_block =
  sb_before :: string
  sb_gap1 :: string
  sb_number :: string
  sb_gap2 :: string
  sb_gap3 :: string
  sb_body :: string

definition block_head :: "solution_block \<Rightarrow> string" where
  "block_head b =
     sb_before b @ CHR ''%'' # sb_gap1 b @ sb_number b @ sb_gap2 b @ nl #
     bs # ''eocesol'' @ sb_gap3 b @ ''{''"

definition block_text :: "solution_block \<Rightarrow> string" where
  "block_text b = block_head b @ sb_body b @ ''}''"

definition well_formed_block :: "solution_block \<Rightarrow> bool" where
  "well_formed_block b =
     (CHR ''%'' \<notin> set (sb_before b) \<and>
      list_all is_space (sb_gap1 b) \<and>
      sb_number b \<noteq> [] \<and> list_all is_digit (sb_number b) \<and>
      list_all is_space (sb_gap2 b) \<and>
      list_all is_space (sb_gap3 b) \<and>
      balanced (sb_body b) \<and> CHR ''%'' \<notin> set (sb_body b))"

definition block_entries :: "solution_block list \<Rightarrow> solution list" where
  "block_entries bl =
     map (\<lambda>b. (sb_number b, sb_body b)) (filter (\<lambda>b. sb_body b \<noteq> []) bl)"

text \<open>
  A text in the expected form is an introduction followed by chapters. A chapter is the
  chapter marker with its name (not empty, without a closing brace), the blocks of the
  chapter and some more text without a percent sign; apart from its own marker the
  chapter holds no \<^verbatim>\<open>\eocesolch{\<close>, and neither does the introduction.
\<close>

fun occurs :: "string \<Rightarrow> string \<Rightarrow> bool" where
  "occurs w [] = (w = [])"
| "occurs w (c # s) = (startswith (c # s) w \<or> occurs w s)"






















text \<open>
  \<open>has_part_marker s\<close>: somewhere in \<open>s\<close> a lowercase letter stands between
  parentheses.
\<close>

fun has_part_marker :: "string \<Rightarrow> bool" where
  "has_part_marker (a # b # c # s) =
     ((a = CHR ''('' \<and> is_lower_az b \<and> c = CHR '')'') \<or> has_part_marker (b # c # s))"
| "has_part_marker s = False"

section \<open>Properties of the brace matcher\<close>

lemma ebc_loop_balanced:
  "balanced_from d body \<Longrightarrow>
   ebc_loop (pre @ body @ CHR ''}'' # rest) (length pre) (int d + 1) acc =
     (acc @ body, length pre + length body + 1)"
proof (induction body arbitrary: d pre acc)
  case Nil
  then show ?case
    by (subst ebc_loop.simps) simp
next
  case (Cons c body)
  have step: "(pre @ [c]) @ body @ CHR ''}'' # rest = pre @ (c # body) @ CHR ''}'' # rest"
    by simp
  show ?case
  proof (cases "c = CHR ''{''")
    case True
    with Cons.prems have b: "balanced_from (Suc d) body" by simp
    from Cons.IH [OF b, of "pre @ [c]" "acc @ [c]"] True show ?thesis
      by (subst ebc_loop.simps) (simp add: step add.commute)
  next
    case False
    show ?thesis
    proof (cases "c = CHR ''}''")
      case True
      with Cons.prems obtain d' where d: "d = Suc d'" and b: "balanced_from d' body"
        by (cases d) auto
      from Cons.IH [OF b, of "pre @ [c]" "acc @ [c]"] True d show ?thesis
        by (subst ebc_loop.simps) (simp add: step add.commute)
    next
      case c: False
      with False Cons.prems have b: "balanced_from d body" by simp
      from Cons.IH [OF b, of "pre @ [c]" "acc @ [c]"] False c show ?thesis
        by (subst ebc_loop.simps) (simp add: step)
    qed
  qed
qed

lemma ebc_matched:
  assumes "balanced body"
  shows "extract_braced_content (pre @ CHR ''{'' # body @ CHR ''}'' # rest) (length pre) =
           (Some body, length pre + length body + 2)"
proof -
  let ?text = "pre @ CHR ''{'' # body @ CHR ''}'' # rest"
  have t: "?text = (pre @ [CHR ''{'']) @ body @ CHR ''}'' # rest"
    by simp
  from assms have b: "balanced_from 0 body"
    by (simp add: balanced_def)
  have "ebc_loop ?text (length pre) 0 [] = ebc_loop ?text (length pre + 1) 1 []"
    by (subst ebc_loop.simps) simp
  also have "\<dots> = ([] @ body, length (pre @ [CHR ''{'']) + length body + 1)"
    unfolding t using ebc_loop_balanced [OF b, of "pre @ [CHR ''{'']" rest "[]"] by simp
  finally show ?thesis
    by (simp add: extract_braced_content_def)
qed

lemma ebc_loop_open:
  "\<not> closes d s \<Longrightarrow> 1 \<le> d \<Longrightarrow>
   ebc_loop (pre @ s) (length pre) d acc = (acc @ s, length pre + length s)"
proof (induction s arbitrary: pre d acc)
  case Nil
  then show ?case
    by (subst ebc_loop.simps) simp
next
  case (Cons c s)
  have step: "(pre @ [c]) @ s = pre @ c # s"
    by simp
  show ?case
  proof (cases "c = CHR ''{''")
    case True
    with Cons.prems have "\<not> closes (d + 1) s" and "1 \<le> d + 1" by auto
    from Cons.IH [OF this, of "pre @ [c]" "acc @ [c]"] True Cons.prems(2) show ?thesis
      by (subst ebc_loop.simps) (simp add: step)
  next
    case False
    show ?thesis
    proof (cases "c = CHR ''}''")
      case True
      with Cons.prems have "\<not> closes (d - 1) s" and "1 \<le> d - 1" by auto
      from Cons.IH [OF this, of "pre @ [c]" "acc @ [c]"] True Cons.prems show ?thesis
        by (subst ebc_loop.simps) (simp add: step)
    next
      case c: False
      with False Cons.prems have "\<not> closes d s" and "1 \<le> d" by auto
      from Cons.IH [OF this, of "pre @ [c]" "acc @ [c]"] False c Cons.prems(2) show ?thesis
        by (subst ebc_loop.simps) (simp add: step)
    qed
  qed
qed

lemma ebc_never_closes:
  assumes "start < length text" and "text ! start = CHR ''{''"
    and "\<not> closes 0 (drop start text)"
  shows "extract_braced_content text start = (Some (drop (Suc start) text), length text)"
proof -
  let ?pre = "take start text @ [CHR ''{'']"
  have t: "text = ?pre @ drop (Suc start) text"
    using assms(1,2) id_take_nth_drop [of start "text"] by simp
  have l: "length ?pre = start + 1"
    using assms(1) by simp
  have d: "drop start text = CHR ''{'' # drop (Suc start) text"
    using assms(1,2) Cons_nth_drop_Suc [of start "text"] by simp
  with assms(3) have nc: "\<not> closes 1 (drop (Suc start) text)"
    by simp
  have "ebc_loop text start 0 [] = ebc_loop text (start + 1) 1 []"
    using assms(1,2) by (subst ebc_loop.simps) simp
  also have "\<dots> = ebc_loop (?pre @ drop (Suc start) text) (length ?pre) 1 []"
    using t l by simp
  also have "\<dots> = ([] @ drop (Suc start) text, length ?pre + length (drop (Suc start) text))"
    using nc by (rule ebc_loop_open) simp
  finally show ?thesis
    using assms(1,2) by (simp add: extract_braced_content_def)
qed

text \<open>
  C2. When the character at the start position is an opening brace whose partner exists
  (the text between them is balanced), the matcher returns exactly the text between the
  two, inner braces included and the outer pair stripped, and the position just past the
  closing brace.
\<close>

theorem extract_braced_content_balanced:
  assumes "balanced body"
  shows "extract_braced_content (pre @ CHR ''{'' # body @ CHR ''}'' # rest) (length pre) =
           (Some body, length pre + length body + 2)"
  using assms by (rule ebc_matched)

theorem extract_braced_content_balanced_witness:
  "balanced ''x{y}z'' \<and>
   extract_braced_content (''ab'' @ CHR ''{'' # ''x{y}z'' @ CHR ''}'' # ''}q'') (length ''ab'') =
     (Some ''x{y}z'', length ''ab'' + length ''x{y}z'' + 2)"
proof -
  have b: "balanced ''x{y}z''"
    by (simp add: balanced_def)
  from extract_braced_content_balanced [OF b, of "''ab''" "''}q''"] b show ?thesis
    by simp
qed

text \<open>
  C7. Extraction moves forward and ends on every input. The loop over a chapter
  (\<open>scan\<close>) and the brace matcher (\<open>ebc_loop\<close>) are total functions: their termination
  proofs above use the measure \<open>length - position\<close>. Every iteration of the loop that does
  not leave it ends at a strictly larger position; and when the opening brace at the start
  position is never closed, the matcher returns at the end of the text, with everything
  after the brace.
\<close>

theorem extraction_progress:
  "(scan_step chapter_content pos solutions = Some (pos', solutions') \<longrightarrow> pos < pos') \<and>
   (start < length text \<and> text ! start = CHR ''{'' \<and> \<not> closes 0 (drop start text) \<longrightarrow>
      extract_braced_content text start = (Some (drop (Suc start) text), length text))"
  using scan_step_progress ebc_never_closes by blast

theorem extraction_progress_witness:
  "scan_step (''% 5'' @ nl # bs # ''eocesol{x}'') 0 [] = Some (13, [(''5'', ''x'')]) \<and>
   (0::nat) < 13 \<and>
   (1::nat) < length ''a{b{c}'' \<and> ''a{b{c}'' ! 1 = CHR ''{'' \<and>
   \<not> closes 0 (drop 1 ''a{b{c}'') \<and>
   extract_braced_content ''a{b{c}'' 1 = (Some (drop (Suc 1) ''a{b{c}''), length ''a{b{c}'')"
proof -
  have s: "scan_step (''% 5'' @ nl # bs # ''eocesol{x}'') 0 [] = Some (13, [(''5'', ''x'')])"
    by code_simp
  have h: "(1::nat) < length ''a{b{c}'' \<and> ''a{b{c}'' ! 1 = CHR ''{'' \<and>
           \<not> closes 0 (drop 1 ''a{b{c}'')"
    by simp
  from extraction_progress [of "''% 5'' @ nl # bs # ''eocesol{x}''" 0 "[]" 13 "[(''5'', ''x'')]"
      1 "''a{b{c}''"] s h
  show ?thesis
    by blast
qed


section \<open>Properties of the extractor\<close>

lemma re_search_skip:
  "\<forall>c\<in>set u. c \<noteq> x \<Longrightarrow>
   re_search [One (Ch x) # r] (u @ s) =
     (case re_search [One (Ch x) # r] s of
        None \<Rightarrow> None
      | Some (st, en, grp) \<Rightarrow> Some (length u + st, length u + en, grp))"
  by (induction u) (auto split: option.splits)

lemma mt_Star_run:
  "\<forall>c\<in>set u. atom_ok a c \<Longrightarrow> mt (Star a # r) s g = Some (grp, k) \<Longrightarrow>
   mt (Star a # r) (u @ s) g = Some (if g then u @ grp else grp, length u + k)"
  by (induction u) (auto simp: took_def)



lemma digit_not_space: "is_digit c \<Longrightarrow> \<not> is_space c"
  by (auto simp: is_digit_def is_space_def)

lemma space_not_digit: "is_space c \<Longrightarrow> \<not> is_digit c"
  by (auto simp: is_digit_def is_space_def)

lemma nl_space: "is_space nl"
  by (simp add: is_space_def nl_def)

lemma annotation_match:
  assumes ws1: "list_all is_space ws1" and ws2: "list_all is_space ws2"
    and n: "list_all is_digit n" "n \<noteq> []" and c: "\<not> is_space c"
  shows "match_at re_annotation (CHR ''%'' # ws1 @ n @ ws2 @ nl # c # rest) =
           Some (n, length ws1 + length n + length ws2 + 2)"
proof -
  let ?tail = "[GClose, Star Space, One (Ch nl)]"
  from n obtain d n' where dn: "n = d # n'" and d: "is_digit d" and n': "list_all is_digit n'"
    by (cases n) auto
  from c have cnl: "c \<noteq> nl"
    using nl_space by auto
  have e1: "mt [Star Space, One (Ch nl)] (nl # c # rest) False = Some ([], 1)"
    using c cnl nl_space by (simp add: took_def)
  have e2: "mt [Star Space, One (Ch nl)] (ws2 @ nl # c # rest) False = Some ([], length ws2 + 1)"
    using mt_Star_run [OF _ e1, of ws2] ws2 by (simp add: list_all_iff)
  have e3: "mt (Star Digit # ?tail) (ws2 @ nl # c # rest) True = Some ([], length ws2 + 1)"
  proof (cases ws2)
    case Nil
    with e2 show ?thesis
      using nl_space space_not_digit by simp
  next
    case (Cons h w)
    with ws2 have "\<not> is_digit h"
      using space_not_digit by simp
    with Cons e2 show ?thesis
      by simp
  qed
  have e4: "mt (Star Digit # ?tail) (n' @ ws2 @ nl # c # rest) True =
              Some (n', length n' + (length ws2 + 1))"
    using mt_Star_run [OF _ e3, of n'] n' by (simp add: list_all_iff)
  have e5: "mt (Star Space # GOpen # Plus Digit # ?tail) (n @ ws2 @ nl # c # rest) False =
              Some (n, length n + (length ws2 + 1))"
    using e4 d digit_not_space [OF d] by (simp add: dn took_def)
  have e6: "mt (Star Space # GOpen # Plus Digit # ?tail) (ws1 @ n @ ws2 @ nl # c # rest) False =
              Some (n, length ws1 + (length n + (length ws2 + 1)))"
    using mt_Star_run [OF _ e5, of ws1] ws1 by (simp add: list_all_iff)
  then show ?thesis
    by (simp add: re_annotation_def took_def)
qed

lemma eocesol_match:
  assumes "list_all is_space ws3"
  shows "match_at re_eocesol (bs # ''eocesol'' @ ws3 @ CHR ''{'' # rest) = Some ([], length ws3 + 9)"
proof -
  have e1: "mt [Star Space, One (Ch CHR ''{'')] (CHR ''{'' # rest) False = Some ([], 1)"
    by (simp add: took_def is_space_def)
  have e2: "mt [Star Space, One (Ch CHR ''{'')] (ws3 @ CHR ''{'' # rest) False =
              Some ([], length ws3 + 1)"
    using mt_Star_run [OF _ e1, of ws3] assms by (simp add: list_all_iff)
  then show ?thesis
    by (simp add: re_eocesol_def lit_def took_def)
qed

lemma scan_step_found:
  assumes "re_search re_annotation (drop pos cc) = Some (st, en, num)"
    and "re_search re_eocesol (drop (pos + en) cc) = Some (st2, en2, g)"
    and "extract_braced_content cc (pos + en + en2 - 1) = (t, q)"
  shows "scan_step cc pos sols =
           Some (pos + en + en2,
                 case t of None \<Rightarrow> sols
                 | Some t \<Rightarrow> if t \<noteq> [] then sols @ [(num, t)] else sols)"
  using assms by (simp add: scan_step_def Let_def)

lemma scan_step_block:
  assumes wf: "well_formed_block b" and u: "CHR ''%'' \<notin> set u"
  shows "scan_step (pre @ u @ block_text b @ R) (length pre) sols =
           Some (length pre + length u + length (block_head b),
                 sols @ block_entries [b])"
proof -
  let ?ann = "CHR ''%'' # sb_gap1 b @ sb_number b @ sb_gap2 b @ [nl]"
  let ?mark = "bs # ''eocesol'' @ sb_gap3 b"
  let ?after = "sb_body b @ CHR ''}'' # R"
  let ?text = "pre @ u @ block_text b @ R"
  define k where "k = length (sb_gap1 b) + length (sb_number b) + length (sb_gap2 b) + 2"
  define P1 where "P1 = pre @ (u @ sb_before b) @ ?ann"
  define P2 where "P2 = P1 @ ?mark"
  have t0: "?text = pre @ (u @ sb_before b) @ ?ann @ ?mark @ CHR ''{'' # ?after"
    by (simp add: block_text_def block_head_def)
  have t1: "?text = P1 @ ?mark @ CHR ''{'' # ?after"
    by (simp add: P1_def block_text_def block_head_def)
  have t2: "?text = P2 @ CHR ''{'' # sb_body b @ CHR ''}'' # R"
    by (simp add: P2_def P1_def block_text_def block_head_def)
  have lP1: "length P1 = length pre + (length (u @ sb_before b) + k)"
    by (simp add: P1_def k_def)
  have lP2: "length P2 = length P1 + length (sb_gap3 b) + 8"
    by (simp add: P2_def)
  have skip: "\<forall>c\<in>set (u @ sb_before b). c \<noteq> CHR ''%''"
    using wf u by (auto simp: well_formed_block_def)
  have nbs: "\<not> is_space bs"
    by (simp add: is_space_def bs_def)
  have m: "match_at re_annotation
             (CHR ''%'' # sb_gap1 b @ sb_number b @ sb_gap2 b @ nl # bs #
                (''eocesol'' @ sb_gap3 b @ CHR ''{'' # ?after)) = Some (sb_number b, k)"
    unfolding k_def using wf nbs
    by (intro annotation_match) (simp_all add: well_formed_block_def)
  have a: "re_search re_annotation (drop (length pre) ?text) =
             Some (length (u @ sb_before b), length (u @ sb_before b) + k, sb_number b)"
  proof -
    have "drop (length pre) ?text = (u @ sb_before b) @ ?ann @ ?mark @ CHR ''{'' # ?after"
      by (subst t0) simp
    moreover have "re_search re_annotation (?ann @ ?mark @ CHR ''{'' # ?after) =
                     Some (0, k, sb_number b)"
      using m by simp
    ultimately show ?thesis
      using re_search_skip [OF skip, of "tl (hd re_annotation)" "?ann @ ?mark @ CHR ''{'' # ?after"]
      by (simp add: re_annotation_def)
  qed
  have e: "re_search re_eocesol (drop (length P1) ?text) = Some (0, length (sb_gap3 b) + 9, [])"
  proof -
    have "drop (length P1) ?text = bs # ''eocesol'' @ sb_gap3 b @ CHR ''{'' # ?after"
      by (subst t1) simp
    moreover have "match_at re_eocesol (bs # ''eocesol'' @ sb_gap3 b @ CHR ''{'' # ?after) =
                     Some ([], length (sb_gap3 b) + 9)"
      using wf by (intro eocesol_match) (simp add: well_formed_block_def)
    ultimately show ?thesis
      by simp
  qed
  have x: "extract_braced_content ?text (length P2) =
             (Some (sb_body b), length P2 + length (sb_body b) + 2)"
    unfolding t2 using wf by (intro ebc_matched) (simp add: well_formed_block_def)
  define en where "en = length (u @ sb_before b) + k"
  define en2 where "en2 = length (sb_gap3 b) + 9"
  define cc where "cc = ?text"
  have a': "re_search re_annotation (drop (length pre) cc) =
              Some (length (u @ sb_before b), en, sb_number b)"
    using a by (simp add: en_def cc_def)
  have e': "re_search re_eocesol (drop (length pre + en) cc) = Some (0, en2, [])"
    using e by (simp add: en_def en2_def cc_def lP1)
  have "length pre + en + en2 - 1 = length P2"
    by (simp add: lP2 lP1 en_def en2_def)
  with x have x': "extract_braced_content cc (length pre + en + en2 - 1) =
                     (Some (sb_body b), length P2 + length (sb_body b) + 2)"
    by (simp add: cc_def)
  have final: "length pre + en + en2 = length pre + length u + length (block_head b)"
    by (simp add: en_def en2_def k_def block_head_def)
  from scan_step_found [OF a' e' x', of sols] show ?thesis
    unfolding final cc_def by (simp add: block_entries_def)
qed







lemma scan_step_entries:
  assumes "scan_step cc pos sols = Some (pos', sols')"
  shows "set sols' \<subseteq> set sols \<union> {e. snd e \<noteq> []}"
  using assms
  by (auto simp: scan_step_def Let_def split: option.splits if_splits)

lemma scan_entries:
  "set (scan cc pos sols) \<subseteq> set sols \<union> {e. snd e \<noteq> []}"
proof (induction cc pos sols rule: scan.induct)
  case (1 cc pos sols)
  show ?case
  proof (cases "pos < length cc")
    case False
    then show ?thesis
      by (subst scan.simps) simp
  next
    case True
    show ?thesis
    proof (cases "scan_step cc pos sols")
      case None
      with True show ?thesis
        by (subst scan.simps) simp
    next
      case (Some p)
      obtain pos' sols' where p: "p = (pos', sols')"
        by (cases p)
      from "1.IH" [OF True Some p [symmetric]]
      have "set (scan cc pos' sols') \<subseteq> set sols' \<union> {e. snd e \<noteq> []}" .
      moreover from Some p have "set sols' \<subseteq> set sols \<union> {e. snd e \<noteq> []}"
        using scan_step_entries by simp
      moreover have "scan cc pos sols = scan cc pos' sols'"
        using True Some p by (subst scan.simps) simp
      ultimately show ?thesis
        by auto
    qed
  qed
qed

lemma scan_nonempty:
  "e \<in> set (scan cc 0 []) \<Longrightarrow> snd e \<noteq> []"
  using scan_entries [of cc 0 "[]"] by auto

lemma parse_chapters_entries:
  "ch \<in> set (parse_chapters content) \<Longrightarrow> e \<in> set (ch_solutions ch) \<Longrightarrow> snd e \<noteq> []"
  by (auto simp: parse_chapters_def Let_def split: prod.splits dest: scan_nonempty)




lemma occurs_tl: "\<not> occurs w (c # s) \<Longrightarrow> \<not> occurs w s"
  by simp














text \<open>
  C10. An annotation followed by a solution marker with an empty braced argument adds no
  entry: the iteration of the loop that meets it leaves the list of solutions as it was and
  resumes the scan just after the opening brace of the marker. And no entry of any
  chapter of any text has an empty solution text.
\<close>

theorem empty_solution_dropped:
  "(well_formed_block b \<and> sb_body b = [] \<and> CHR ''%'' \<notin> set u \<longrightarrow>
      scan_step (pre @ u @ block_text b @ rest) (length pre) solutions =
        Some (length pre + length u + length (block_head b), solutions)) \<and>
   (\<forall>ch\<in>set (parse_chapters content). \<forall>e\<in>set (ch_solutions ch). snd e \<noteq> [])"
  using scan_step_block [of b u pre rest solutions] parse_chapters_entries
  by (auto simp: block_entries_def)

theorem empty_solution_dropped_witness:
  "well_formed_block \<lparr>sb_before = [], sb_gap1 = '' '', sb_number = ''5'', sb_gap2 = [],
       sb_gap3 = [], sb_body = []\<rparr> \<and>
   CHR ''%'' \<notin> set ''ab'' \<and>
   scan_step (''ab% 5'' @ nl # bs # ''eocesol{}'' @ nl # ''% 6'' @ nl # bs # ''eocesol{y}'') 0
     [(''4'', ''x'')] = Some (15, [(''4'', ''x'')]) \<and>
   parse_chapters (bs # ''eocesolch{P}'' @ nl # ''% 5'' @ nl # bs # ''eocesol{}'' @ nl # ''% 6'' @ nl #
      bs # ''eocesol{y}'') = [\<lparr>ch_name = ''P'', ch_solutions = [(''6'', ''y'')]\<rparr>] \<and>
   snd (''6'', ''y'') \<noteq> []"
proof -
  let ?b = "\<lparr>sb_before = [], sb_gap1 = '' '', sb_number = ''5'', sb_gap2 = [],
       sb_gap3 = [], sb_body = []\<rparr>"
  let ?content = "bs # ''eocesolch{P}'' @ nl # ''% 5'' @ nl # bs # ''eocesol{}'' @ nl # ''% 6'' @ nl #
      bs # ''eocesol{y}''"
  have h1: "well_formed_block ?b"
    by code_simp
  have h2: "CHR ''%'' \<notin> set ''ab''"
    by simp
  have p: "parse_chapters ?content = [\<lparr>ch_name = ''P'', ch_solutions = [(''6'', ''y'')]\<rparr>]"
    by code_simp
  from empty_solution_dropped [of ?b "''ab''" "[]" "nl # ''% 6'' @ nl # bs # ''eocesol{y}''"
      "[(''4'', ''x'')]" ?content] h1 h2 p
  show ?thesis
    by (simp add: block_text_def block_head_def)
qed

section \<open>Properties of the translator\<close>






lemma space_is_space: "is_space CHR '' ''"
  by (simp add: is_space_def)






































































































section \<open>Properties of the assembler\<close>

lemma part_marker_shape:
  "match_at re_part_marker t = Some m \<Longrightarrow> has_part_marker t"
proof (cases t)
  case Nil
  then show "match_at re_part_marker t = Some m \<Longrightarrow> has_part_marker t"
    by (simp add: re_part_marker_def)
next
  case (Cons a t1)
  assume m: "match_at re_part_marker t = Some m"
  show "has_part_marker t"
  proof (cases t1)
    case Nil
    with Cons m show ?thesis
      by (auto simp: re_part_marker_def took_def split: if_splits option.splits)
  next
    case c1: (Cons b t2)
    show ?thesis
    proof (cases t2)
      case Nil
      with Cons c1 m show ?thesis
        by (auto simp: re_part_marker_def took_def split: if_splits option.splits)
    next
      case c2: (Cons c t3)
      with Cons c1 m show ?thesis
        by (auto simp: re_part_marker_def took_def split: if_splits option.splits)
    qed
  qed
qed

lemma has_part_marker_tl:
  "\<not> has_part_marker (c # s) \<Longrightarrow> \<not> has_part_marker s"
  by (cases s rule: has_part_marker.cases) auto

lemma re_split_no_marker:
  "\<not> has_part_marker t \<Longrightarrow> re_split_from re_part_marker acc t = [acc @ t]"
proof (induction t arbitrary: acc)
  case Nil
  then show ?case by simp
next
  case (Cons c t)
  then have "match_at re_part_marker (c # t) = None"
    using part_marker_shape [of "c # t"] by (cases "match_at re_part_marker (c # t)") auto
  moreover from Cons.prems have "\<not> has_part_marker t"
    by (rule has_part_marker_tl)
  ultimately show ?case
    using Cons.IH [of "acc @ [c]"] by simp
qed

text \<open>
  C6. The solution text \<^verbatim>\<open>(a) foo. (b) bar.\<close> is rendered as an ordered list with the
  marker style \<^verbatim>\<open>(a)\<close> and exactly the two items \<^verbatim>\<open>foo.\<close> and \<^verbatim>\<open>bar.\<close>, each ending
  in one period; and every solution text without a parenthesized lowercase letter is
  rendered as a single paragraph holding its translation, not as a list.
\<close>

theorem create_pretext_solution_parts:
  "create_pretext_solution n ''(a) foo. (b) bar.'' =
     join [nl] [''    <solution>'',
                ''      <title>Exercise '' @ n @ ''</title>'',
                ''      <p>'',
                ''        <ol marker=\"(a)\">'',
                ''          <li>foo.</li>'',
                ''          <li>bar.</li>'',
                ''        </ol>'',
                ''      </p>'',
                ''    </solution>''] \<and>
   (\<not> has_part_marker t \<longrightarrow>
      create_pretext_solution n t =
        join [nl] [''    <solution>'',
                   ''      <title>Exercise '' @ n @ ''</title>'',
                   ''      <p>'',
                   ''        '' @ convert_latex_to_pretext t,
                   ''      </p>'',
                   ''    </solution>''])"
proof
  show "create_pretext_solution n ''(a) foo. (b) bar.'' =
     join [nl] [''    <solution>'',
                ''      <title>Exercise '' @ n @ ''</title>'',
                ''      <p>'',
                ''        <ol marker=\"(a)\">'',
                ''          <li>foo.</li>'',
                ''          <li>bar.</li>'',
                ''        </ol>'',
                ''      </p>'',
                ''    </solution>'']"
    by code_simp
next
  show "\<not> has_part_marker t \<longrightarrow>
      create_pretext_solution n t =
        join [nl] [''    <solution>'',
                   ''      <title>Exercise '' @ n @ ''</title>'',
                   ''      <p>'',
                   ''        '' @ convert_latex_to_pretext t,
                   ''      </p>'',
                   ''    </solution>'']"
    by (simp add: create_pretext_solution_def re_split_def re_split_no_marker)
qed

theorem create_pretext_solution_parts_witness:
  "\<not> has_part_marker ''A single sentence.'' \<and>
   create_pretext_solution ''7'' ''A single sentence.'' =
     join [nl] [''    <solution>'',
                ''      <title>Exercise 7</title>'',
                ''      <p>'',
                ''        A single sentence.'',
                ''      </p>'',
                ''    </solution>'']"
proof -
  have h: "\<not> has_part_marker ''A single sentence.''"
    by code_simp
  have c: "convert_latex_to_pretext ''A single sentence.'' = ''A single sentence.''"
    by code_simp
  from create_pretext_solution_parts [of "''7''" "''A single sentence.''"] h c
  show ?thesis
    by simp
qed

text \<open>
  C3. The text with the chapter marker named \<^verbatim>\<open>Probability\<close>, the annotation \<^verbatim>\<open>% 5\<close> and
  the solution marker around \<^verbatim>\<open>The answer is $x=2$.\<close> is parsed into one chapter with one
  solution, and the document written for it has, after the fixed header, the section
  \<^verbatim>\<open>solutions-ch03\<close> titled \<^verbatim>\<open>Probability\<close> with the one solution titled
  \<^verbatim>\<open>Exercise 5\<close>, whose paragraph holds \<^verbatim>\<open><m>x=2</m>\<close>.
\<close>

theorem probability_scenario:
  "parse_chapters
     (bs # ''eocesolch{Probability}'' @ nl # ''% 5'' @ nl #
      bs # ''eocesol{The answer is $x=2$.}'' @ [nl]) =
     [\<lparr>ch_name = ''Probability'', ch_solutions = [(''5'', ''The answer is $x=2$.'')]\<rparr>] \<and>
   document
     (parse_chapters
        (bs # ''eocesolch{Probability}'' @ nl # ''% 5'' @ nl #
         bs # ''eocesol{The answer is $x=2$.}'' @ [nl])) =
     join [nl]
       (header_lines @
        [''  <section xml:id=\"solutions-ch03\">'',
         ''    <title>Probability</title>'',
         [],
         join [nl] [''    <solution>'',
                    ''      <title>Exercise 5</title>'',
                    ''      <p>'',
                    ''        The answer is <m>x=2</m>.'',
                    ''      </p>'',
                    ''    </solution>''],
         [],
         ''  </section>'',
         [],
         ''</appendix>''])"
  by code_simp

section \<open>Properties of the run\<close>



end
